theory Spec2Isabelle
  imports Complex_Main
begin

section \<open>Numbers\<close>

text \<open>
  Every field and every intermediate value of \<^verbatim>\<open>interval.ts\<close> is a TypeScript
  \<^verbatim>\<open>number\<close>. The embedding reads a number as an exact rational: integers and
  the decimal fractions the parsers accept are represented as they are written, and the
  operators below are the ECMAScript ones on such values. The special values
  (\<^verbatim>\<open>NaN\<close>, the infinities, the negative zero) and the rounding of results
  to 53 bits are outside the embedding.
\<close>

type_synonym number = rat

definition MICROSECONDS_PER_SECOND :: number where
  "MICROSECONDS_PER_SECOND = 1000000"

definition SECONDS_PER_MINUTE :: number where
  "SECONDS_PER_MINUTE = 60"

definition MINUTES_PER_HOUR :: number where
  "MINUTES_PER_HOUR = 60"

definition HOURS_PER_DAY :: number where
  "HOURS_PER_DAY = 24"

definition MONTHS_PER_YEAR :: number where
  "MONTHS_PER_YEAR = 12"

definition MICROSECONDS_PER_MINUTE :: number where
  "MICROSECONDS_PER_MINUTE = MICROSECONDS_PER_SECOND * SECONDS_PER_MINUTE"

definition MICROSECONDS_PER_HOUR :: number where
  "MICROSECONDS_PER_HOUR = MICROSECONDS_PER_MINUTE * MINUTES_PER_HOUR"

definition MICROSECONDS_PER_DAY :: number where
  "MICROSECONDS_PER_DAY = MICROSECONDS_PER_HOUR * HOURS_PER_DAY"

definition MICROSECONDS_PER_MILLISECOND :: number where
  "MICROSECONDS_PER_MILLISECOND = 1000"

text \<open>\<^verbatim>\<open>Math.floor\<close>, \<^verbatim>\<open>Math.abs\<close> and \<^verbatim>\<open>Math.sign\<close>.\<close>

definition Math_floor :: "number \<Rightarrow> number" where
  "Math_floor x = of_int \<lfloor>x\<rfloor>"

definition Math_abs :: "number \<Rightarrow> number" where
  "Math_abs x = (if x < 0 then - x else x)"

definition Math_sign :: "number \<Rightarrow> number" where
  "Math_sign x = (if x < 0 then - 1 else if x = 0 then 0 else 1)"

text \<open>
  \<^verbatim>\<open>Math.round\<close>: the integer closest to the argument, and of two equally
  close integers the one nearer to plus infinity.
\<close>

definition Math_round :: "number \<Rightarrow> number" where
  "Math_round x = of_int \<lfloor>x + 1 / 2\<rfloor>"

text \<open>
  The operator \<^verbatim>\<open>%\<close>: the remainder of the division truncated towards zero, so
  that the result has the sign of the dividend.
\<close>

definition js_trunc :: "number \<Rightarrow> int" where
  "js_trunc q = (if q < 0 then \<lceil>q\<rceil> else \<lfloor>q\<rfloor>)"

definition js_rem :: "number \<Rightarrow> number \<Rightarrow> number" where
  "js_rem a b = a - b * of_int (js_trunc (a / b))"

text \<open>\<^verbatim>\<open>Number.isInteger\<close>, used to state which values are whole.\<close>

definition isInteger :: "number \<Rightarrow> bool" where
  "isInteger x = (of_int \<lfloor>x\<rfloor> = x)"

section \<open>The stored value and its accumulators\<close>

record IntervalStorage =
  months :: number
  days :: number
  microseconds :: number

definition emptyStorage :: IntervalStorage where
  "emptyStorage = \<lparr>months = 0, days = 0, microseconds = 0\<rparr>"

definition negateAllComponents :: "IntervalStorage \<Rightarrow> IntervalStorage" where
  "negateAllComponents st =
     \<lparr>months = - months st, days = - days st, microseconds = - microseconds st\<rparr>"

definition addMicroseconds :: "number \<Rightarrow> IntervalStorage \<Rightarrow> IntervalStorage" where
  "addMicroseconds us st = st\<lparr>microseconds := microseconds st + Math_round us\<rparr>"

definition addMonths :: "number \<Rightarrow> IntervalStorage \<Rightarrow> IntervalStorage" where
  "addMonths m st = st\<lparr>months := months st + m\<rparr>"

definition addDays :: "number \<Rightarrow> IntervalStorage \<Rightarrow> IntervalStorage" where
  "addDays d st = st\<lparr>days := days st + d\<rparr>"

definition addTime :: "number \<Rightarrow> number \<Rightarrow> number \<Rightarrow> IntervalStorage \<Rightarrow> IntervalStorage" where
  "addTime hours minutes seconds st =
     (let totalMicroseconds =
            hours * MICROSECONDS_PER_HOUR
            + minutes * MICROSECONDS_PER_MINUTE
            + Math_round (seconds * MICROSECONDS_PER_SECOND)
      in st\<lparr>microseconds := microseconds st + totalMicroseconds\<rparr>)"

section \<open>Normalization\<close>

definition normalizeMicroseconds :: "IntervalStorage \<Rightarrow> number \<times> number" where
  "normalizeMicroseconds st =
     (let totalDays = Math_floor (microseconds st / MICROSECONDS_PER_DAY);
          remainder = js_rem (microseconds st) MICROSECONDS_PER_DAY
      in if microseconds st < 0 \<and> remainder \<noteq> 0
         then (totalDays - 1, remainder + MICROSECONDS_PER_DAY)
         else (totalDays, remainder))"

definition normalizeStorage :: "IntervalStorage \<Rightarrow> IntervalStorage" where
  "normalizeStorage st =
     (case normalizeMicroseconds st of
        (extraDays, normalizedMicros) \<Rightarrow>
          \<lparr>months = months st, days = days st + extraDays, microseconds = normalizedMicros\<rparr>)"

definition getStorage :: "IntervalStorage \<Rightarrow> IntervalStorage" where
  "getStorage st = normalizeStorage st"

section \<open>Strings\<close>

text \<open>
  Strings are lists of 8-bit characters; the embedding covers ASCII input. The white space
  of \<^verbatim>\<open>trim\<close> and of the class \<^verbatim>\<open>\s\<close> is then tab, line feed,
  vertical tab, form feed, carriage return and space.
\<close>

definition isWhitespace :: "char \<Rightarrow> bool" where
  "isWhitespace c = (c \<in> set [CHR 0x09, CHR 0x0A, CHR 0x0B, CHR 0x0C, CHR 0x0D, CHR 0x20])"

definition isDigit :: "char \<Rightarrow> bool" where
  "isDigit c = (c \<in> set ''0123456789'')"

definition isLetter :: "char \<Rightarrow> bool" where
  "isLetter c =
     (let n = (of_char c :: nat) in (65 \<le> n \<and> n \<le> 90) \<or> (97 \<le> n \<and> n \<le> 122))"

definition toLowerChar :: "char \<Rightarrow> char" where
  "toLowerChar c =
     (let n = (of_char c :: nat) in if 65 \<le> n \<and> n \<le> 90 then char_of (n + 32) else c)"

definition toLowerCase :: "string \<Rightarrow> string" where
  "toLowerCase s = map toLowerChar s"

definition trim :: "string \<Rightarrow> string" where
  "trim s = rev (dropWhile isWhitespace (rev (dropWhile isWhitespace s)))"

definition startsWith :: "string \<Rightarrow> string \<Rightarrow> bool" where
  "startsWith s p = (take (length p) s = p)"

text \<open>\<^verbatim>\<open>input.slice(1)\<close>.\<close>

definition slice1 :: "string \<Rightarrow> string" where
  "slice1 s = drop 1 s"

text \<open>\<^verbatim>\<open>part.replace(/s$/, '')\<close>: one trailing lower-case s is removed.\<close>

definition stripTrailingS :: "string \<Rightarrow> string" where
  "stripTrailingS s = (if s \<noteq> [] \<and> last s = CHR ''s'' then butlast s else s)"

text \<open>
  \<^verbatim>\<open>input.split(/\s+/)\<close>: the pieces between maximal runs of white space. A run
  at the start or at the end of the input leaves an empty piece there, and the empty
  input gives one empty piece.
\<close>

function splitWs :: "string \<Rightarrow> string \<Rightarrow> string list" where
  "splitWs cur [] = [cur]"
| "splitWs cur (c # cs) =
     (if isWhitespace c then cur # splitWs [] (dropWhile isWhitespace cs)
      else splitWs (cur @ [c]) cs)"
  by pat_completeness auto
termination
  by (relation "measure (\<lambda>(cur, s). length s)")
     (auto simp: length_dropWhile_le less_Suc_eq_le)

definition split_whitespace :: "string \<Rightarrow> string list" where
  "split_whitespace input = splitWs [] input"

text \<open>
  \<^verbatim>\<open>padStart(n, '0')\<close> and \<^verbatim>\<open>parts.join(' ')\<close>.
\<close>

definition padStart :: "nat \<Rightarrow> string \<Rightarrow> string" where
  "padStart n s = replicate (n - length s) CHR ''0'' @ s"

fun join_space :: "string list \<Rightarrow> string" where
  "join_space [] = []"
| "join_space [p] = p"
| "join_space (p # q # ps) = p @ CHR '' '' # join_space (q # ps)"

section \<open>Reading and writing numbers\<close>

definition digitValue :: "char \<Rightarrow> int" where
  "digitValue c = of_char c - 48"

text \<open>
  \<^verbatim>\<open>parseInt\<close> on a string of decimal digits, the only strings the parsers
  hand to it.
\<close>

definition digitsValue :: "string \<Rightarrow> int" where
  "digitsValue ds = foldl (\<lambda>a c. 10 * a + digitValue c) 0 ds"

definition parseInt :: "string \<Rightarrow> number" where
  "parseInt ds = of_int (digitsValue ds)"

text \<open>
  \<^verbatim>\<open>parseFloat\<close> on an optional minus sign, decimal digits and an optional
  fraction: the value of the longest such prefix, read as the exact decimal. The source
  takes the 64-bit float nearest to that decimal, and rounds each product and sum again;
  the two agree where the decimal and the results are floats themselves, as whole numbers
  below \<open>2\<^sup>5\<^sup>3\<close> and their quotients by powers of two are.
\<close>

definition parseFloat :: "string \<Rightarrow> number" where
  "parseFloat s =
     (let neg = startsWith s ''-'';
          body = (if neg then drop 1 s else s);
          ip = takeWhile isDigit body;
          rest = dropWhile isDigit body;
          fp = (if startsWith rest ''.'' then takeWhile isDigit (drop 1 rest) else []);
          v = parseInt ip + (if fp = [] then 0 else parseInt fp / 10 ^ length fp)
      in if neg then - v else v)"

text \<open>
  The conversion of a number to a string, as a template literal and
  \<^verbatim>\<open>toString\<close> do it (\<^verbatim>\<open>Number::toString\<close> of ECMAScript, radix 10).
  With \<open>s\<close> the significant digits of the number, \<open>k\<close> their count and
  \<open>n\<close> the position of the decimal point:
  \<^item> a whole number below \<open>10\<^sup>2\<^sup>1\<close> in magnitude is written as its decimal digits;
  \<^item> a number with digits on both sides of the point is written with the point in place;
  \<^item> a number below one with at most five zeros after the point is written as
    \<^verbatim>\<open>0.\<close>, the zeros and the digits;
  \<^item> a smaller number is written as the first digit, the point and the other digits if
    there are any, \<^verbatim>\<open>e-\<close> and the exponent.

  A minus sign comes first for a negative number. ECMAScript takes for \<open>s\<close> the
  shortest digits that identify the 64-bit float. For a float whose decimal expansion has
  at most 15 significant digits these are the digits of the expansion, and that is what
  is written here. The result is \<open>None\<close> for a number with more significant digits
  (or with none within 30 places after the point), and for a whole number from
  \<open>10\<^sup>2\<^sup>1\<close> on: their text depends on the rounding to 53 bits, which is outside the
  embedding.
\<close>

function digits :: "int \<Rightarrow> string" where
  "digits n = (if n < 10 then [char_of (48 + n)] else digits (n div 10) @ [char_of (48 + n mod 10)])"
  by pat_completeness auto
termination
  by (relation "measure nat") auto

declare digits.simps [simp del]

text \<open>
  The digits after the point of a number between 0 and 1, as far as they end within the
  given number of places.
\<close>

fun fracDigits :: "nat \<Rightarrow> number \<Rightarrow> string option" where
  "fracDigits 0 f = (if f = 0 then Some [] else None)"
| "fracDigits (Suc n) f =
     (if f = 0 then Some []
      else map_option (\<lambda>r. char_of (48 + \<lfloor>f * 10\<rfloor>) # r)
             (fracDigits n (f * 10 - of_int \<lfloor>f * 10\<rfloor>)))"

text \<open>The text of a positive number that is not whole.\<close>

definition fractionToString :: "number \<Rightarrow> string option" where
  "fractionToString a =
     (case fracDigits 30 (a - of_int \<lfloor>a\<rfloor>) of
        None \<Rightarrow> None
      | Some fd \<Rightarrow>
          (let z = length (takeWhile (\<lambda>c. c = CHR ''0'') fd);
               sig = dropWhile (\<lambda>c. c = CHR ''0'') fd
           in if 1 \<le> \<lfloor>a\<rfloor> then
                (if length (digits \<lfloor>a\<rfloor>) + length fd \<le> 15
                 then Some (digits \<lfloor>a\<rfloor> @ ''.'' @ fd) else None)
              else if 15 < length sig then None
              else if z < 6 then Some (''0.'' @ fd)
              else Some (take 1 sig @ (if length sig = 1 then [] else ''.'' @ drop 1 sig)
                         @ ''e-'' @ digits (int z + 1))))"

definition numToString :: "number \<Rightarrow> string option" where
  "numToString x =
     (if isInteger x \<and> Math_abs x < 10 ^ 21
      then Some ((if x < 0 then ''-'' else []) @ digits \<lfloor>Math_abs x\<rfloor>)
      else if isInteger x then None
      else map_option (\<lambda>t. (if x < 0 then ''-'' else []) @ t) (fractionToString (Math_abs x)))"

section \<open>The parsers\<close>

definition UNIT_ALIASES :: "(string \<times> string) list" where
  "UNIT_ALIASES =
     [(''years'', ''year''), (''year'', ''year''), (''yr'', ''year''), (''y'', ''year''),
      (''months'', ''month''), (''month'', ''month''), (''mons'', ''month''), (''mon'', ''month''),
      (''days'', ''day''), (''day'', ''day''), (''d'', ''day''),
      (''hours'', ''hour''), (''hour'', ''hour''), (''hr'', ''hour''), (''h'', ''hour''),
      (''minutes'', ''minute''), (''minute'', ''minute''), (''mins'', ''minute''),
      (''min'', ''minute''),
      (''seconds'', ''second''), (''second'', ''second''), (''secs'', ''second''),
      (''sec'', ''second''), (''s'', ''second''),
      (''milliseconds'', ''millisecond''), (''millisecond'', ''millisecond''),
      (''millisecs'', ''millisecond''), (''millisec'', ''millisecond''),
      (''msecs'', ''millisecond''), (''msec'', ''millisecond''), (''ms'', ''millisecond''),
      (''microseconds'', ''microsecond''), (''microsecond'', ''microsecond''),
      (''microsecs'', ''microsecond''), (''microsec'', ''microsecond''),
      (''usecs'', ''microsecond''), (''usec'', ''microsecond''), (''us'', ''microsecond'')]"

definition getCanonicalUnit :: "string \<Rightarrow> string option" where
  "getCanonicalUnit unit = map_of UNIT_ALIASES (toLowerCase unit)"

subsection \<open>ISO 8601\<close>

text \<open>
  The pattern of \<^verbatim>\<open>tryParseISO8601\<close> is
  \<^verbatim>\<open>^P(?:(\d+)Y)?(?:(\d+)M)?(?:(\d+)D)?(?:T(?:(\d+)H)?(?:(\d+)M)?(?:(\d+(?:\.\d+)?)S)?)?$\<close>.
  Each optional group is a maximal run of digits closed by its own letter, and the letter
  \<^verbatim>\<open>T\<close> separates the months from the minutes, so a string has at most one
  reading and the matcher below reads it from left to right. \<open>isoComponent c\<close> is
  one group \<^verbatim>\<open>(?:(\d+)c)?\<close>: the capture, if the group is there, and the rest
  of the input.
\<close>

definition isoComponent :: "char \<Rightarrow> string \<Rightarrow> string option \<times> string" where
  "isoComponent c s =
     (let ds = takeWhile isDigit s; rest = dropWhile isDigit s
      in if ds \<noteq> [] \<and> startsWith rest [c] then (Some ds, drop 1 rest) else (None, s))"

text \<open>The group \<^verbatim>\<open>(?:(\d+(?:\.\d+)?)S)?\<close>.\<close>

definition isoSeconds :: "string \<Rightarrow> string option \<times> string" where
  "isoSeconds s =
     (let ip = takeWhile isDigit s;
          r1 = dropWhile isDigit s;
          fp = (if startsWith r1 ''.'' then takeWhile isDigit (drop 1 r1) else []);
          r2 = (if fp = [] then r1 else dropWhile isDigit (drop 1 r1))
      in if ip \<noteq> [] \<and> startsWith r2 ''S''
         then (Some (if fp = [] then ip else ip @ ''.'' @ fp), drop 1 r2)
         else (None, s))"

type_synonym isoMatch =
  "string option \<times> string option \<times> string option \<times> string option \<times> string option \<times> string option"

definition matchISO8601 :: "string \<Rightarrow> isoMatch option" where
  "matchISO8601 input =
     (if startsWith input ''P'' then
        (case isoComponent CHR ''Y'' (drop 1 input) of (years, r1) \<Rightarrow>
         case isoComponent CHR ''M'' r1 of (mons, r2) \<Rightarrow>
         case isoComponent CHR ''D'' r2 of (dys, r3) \<Rightarrow>
           if r3 = [] then Some (years, mons, dys, None, None, None)
           else if startsWith r3 ''T'' then
             (case isoComponent CHR ''H'' (drop 1 r3) of (hours, r4) \<Rightarrow>
              case isoComponent CHR ''M'' r4 of (minutes, r5) \<Rightarrow>
              case isoSeconds r5 of (seconds, r6) \<Rightarrow>
                if r6 = [] then Some (years, mons, dys, hours, minutes, seconds) else None)
           else None)
      else None)"

text \<open>
  A parser that returns \<^verbatim>\<open>false\<close> has not touched the stored value: the result
  is \<open>None\<close>. One that returns \<^verbatim>\<open>true\<close> gives the stored value it leaves.
  A captured group is a non-empty string, which is truthy, so each \<^verbatim>\<open>if (group)\<close>
  of the source asks whether the group took part in the match.
\<close>

definition orZero :: "string option \<Rightarrow> string" where
  "orZero g = (case g of Some s \<Rightarrow> s | None \<Rightarrow> ''0'')"

definition tryParseISO8601 :: "string \<Rightarrow> IntervalStorage \<Rightarrow> IntervalStorage option" where
  "tryParseISO8601 input st =
     (case matchISO8601 input of
        None \<Rightarrow> None
      | Some (years, mons, dys, hours, minutes, seconds) \<Rightarrow>
          (let st1 = (case years of Some y \<Rightarrow> addMonths (parseInt y * MONTHS_PER_YEAR) st
                      | None \<Rightarrow> st);
               st2 = (case mons of Some m \<Rightarrow> addMonths (parseInt m) st1 | None \<Rightarrow> st1);
               st3 = (case dys of Some d \<Rightarrow> addDays (parseInt d) st2 | None \<Rightarrow> st2)
           in Some (if hours = None \<and> minutes = None \<and> seconds = None then st3
                    else addTime (parseInt (orZero hours)) (parseInt (orZero minutes))
                           (parseFloat (orZero seconds)) st3)))"

subsection \<open>Clock time\<close>

text \<open>
  The pattern \<^verbatim>\<open>^(-)?(\d+):(\d+):(\d+)(?:\.(\d+))?$\<close>: the sign, the three
  digit groups and the optional fraction.
\<close>

definition matchTimeFormat ::
  "string \<Rightarrow> (bool \<times> string \<times> string \<times> string \<times> string option) option" where
  "matchTimeFormat input =
     (let negative = startsWith input ''-'';
          s0 = (if negative then drop 1 input else input);
          hours = takeWhile isDigit s0; r1 = dropWhile isDigit s0;
          minutes = takeWhile isDigit (drop 1 r1); r2 = dropWhile isDigit (drop 1 r1);
          seconds = takeWhile isDigit (drop 1 r2); r3 = dropWhile isDigit (drop 1 r2)
      in if hours = [] then None
         else if startsWith r1 '':'' \<and> minutes \<noteq> [] \<and> startsWith r2 '':'' \<and> seconds \<noteq> [] then
           (if r3 = [] then Some (negative, hours, minutes, seconds, None)
            else if startsWith r3 ''.'' \<and> drop 1 r3 \<noteq> [] \<and> list_all isDigit (drop 1 r3)
            then Some (negative, hours, minutes, seconds, Some (drop 1 r3))
            else None)
         else None)"

definition tryParseTimeFormat :: "string \<Rightarrow> IntervalStorage \<Rightarrow> IntervalStorage option" where
  "tryParseTimeFormat input st =
     (case matchTimeFormat input of
        None \<Rightarrow> None
      | Some (negative, hours, minutes, seconds, micros) \<Rightarrow>
          (let multiplier = (if negative then - 1 else 1 :: number)
           in Some (addTime (parseInt hours * multiplier) (parseInt minutes * multiplier)
                (parseFloat (seconds @ (case micros of Some u \<Rightarrow> ''.'' @ u | None \<Rightarrow> []))
                   * multiplier) st)))"

subsection \<open>The verbose unit list\<close>

definition handleNegativeSign :: "string \<Rightarrow> bool" where
  "handleNegativeSign part = (part = ''-'')"

text \<open>
  \<^verbatim>\<open>tryParseNumber\<close> tests \<^verbatim>\<open>^-?\d+(\.\d+)?$\<close> and hands
  \<^verbatim>\<open>parseFloat(part)\<close> to its callback: the result is that value, or
  \<open>None\<close> where the source returns \<^verbatim>\<open>false\<close>.
\<close>

definition isNumberToken :: "string \<Rightarrow> bool" where
  "isNumberToken part =
     (let body = (if startsWith part ''-'' then drop 1 part else part);
          ip = takeWhile isDigit body; rest = dropWhile isDigit body
      in if ip = [] then False
         else if rest = [] then True
         else startsWith rest ''.'' \<and> drop 1 rest \<noteq> [] \<and> list_all isDigit (drop 1 rest))"

definition tryParseNumber :: "string \<Rightarrow> number option" where
  "tryParseNumber part = (if isNumberToken part then Some (parseFloat part) else None)"

definition addValueWithUnit :: "string \<Rightarrow> number \<Rightarrow> IntervalStorage \<Rightarrow> IntervalStorage" where
  "addValueWithUnit unit v st =
     (if unit = ''year'' then addMonths (v * MONTHS_PER_YEAR) st
      else if unit = ''month'' then addMonths v st
      else if unit = ''day'' then addDays v st
      else if unit = ''hour'' then addTime v 0 0 st
      else if unit = ''minute'' then addTime 0 v 0 st
      else if unit = ''second'' then addTime 0 0 v st
      else if unit = ''millisecond'' then addMicroseconds (v * MICROSECONDS_PER_MILLISECOND) st
      else if unit = ''microsecond'' then addMicroseconds v st
      else st)"

text \<open>
  \<^verbatim>\<open>tryParseUnit\<close> tests \<^verbatim>\<open>^[a-z]+s?$\<close> without regard to case; the
  optional last \<^verbatim>\<open>s\<close> is a letter itself, so the test asks for a non-empty
  string of letters.
\<close>

definition tryParseUnit ::
  "string \<Rightarrow> number \<Rightarrow> bool \<Rightarrow> IntervalStorage \<Rightarrow> IntervalStorage option" where
  "tryParseUnit part v isNegative st =
     (if part \<noteq> [] \<and> list_all isLetter part then
        (let unitBase = stripTrailingS part
         in case getCanonicalUnit unitBase of
              None \<Rightarrow> None
            | Some canonicalUnit \<Rightarrow>
                (let multiplier = (if isNegative then - 1 else 1 :: number);
                     finalValue = v * multiplier
                 in Some (addValueWithUnit canonicalUnit finalValue st)))
      else None)"

text \<open>
  The loop of \<^verbatim>\<open>parseVerboseFormat\<close> over the pieces, with its two local
  variables \<^verbatim>\<open>currentValue\<close> and \<^verbatim>\<open>isNegative\<close> as arguments.
\<close>

fun verboseLoop :: "string list \<Rightarrow> number \<Rightarrow> bool \<Rightarrow> IntervalStorage \<Rightarrow> IntervalStorage" where
  "verboseLoop [] currentValue isNegative st = st"
| "verboseLoop (part # parts) currentValue isNegative st =
     (if handleNegativeSign part then verboseLoop parts currentValue True st
      else case tryParseNumber part of
             Some v \<Rightarrow> verboseLoop parts v (startsWith part ''-'') st
           | None \<Rightarrow>
               (case tryParseUnit part currentValue isNegative st of
                  Some st' \<Rightarrow> verboseLoop parts 0 False st'
                | None \<Rightarrow> verboseLoop parts currentValue isNegative st))"

definition parseVerboseFormat :: "string \<Rightarrow> IntervalStorage \<Rightarrow> IntervalStorage" where
  "parseVerboseFormat input st = verboseLoop (split_whitespace input) 0 False st"

subsection \<open>The dispatch chain\<close>

function parse :: "string \<Rightarrow> IntervalStorage \<Rightarrow> IntervalStorage"
  and tryParseNegativeISO :: "string \<Rightarrow> IntervalStorage \<Rightarrow> IntervalStorage option" where
  "parse input st =
     (case tryParseNegativeISO input st of
        Some st' \<Rightarrow> st'
      | None \<Rightarrow>
          (case tryParseISO8601 input st of
             Some st' \<Rightarrow> st'
           | None \<Rightarrow>
               (case tryParseTimeFormat input st of
                  Some st' \<Rightarrow> st'
                | None \<Rightarrow> parseVerboseFormat input st)))"
| "tryParseNegativeISO input st =
     (if startsWith input ''-P'' then Some (negateAllComponents (parse (slice1 input) st))
      else None)"
  by pat_completeness auto
termination
proof (relation "measure (\<lambda>x. case x of Inl (i, s) \<Rightarrow> 2 * length i + 1 | Inr (i, s) \<Rightarrow> 2 * length i)")
  fix input :: string and st :: IntervalStorage
  assume "startsWith input ''-P''"
  then have "input \<noteq> []"
    by (auto simp: startsWith_def)
  then show "(Inl (slice1 input, st), Inr (input, st))
      \<in> measure (\<lambda>x. case x of Inl (i, s) \<Rightarrow> 2 * length i + 1 | Inr (i, s) \<Rightarrow> 2 * length i)"
    by (cases input) (simp_all add: slice1_def)
qed simp_all

declare parse.simps [simp del] tryParseNegativeISO.simps [simp del]

section \<open>The interval and its operations\<close>

text \<open>
  An \<^verbatim>\<open>Interval\<close> has one field, its stored value, and is identified with it.
  The constructor takes a string or a stored value; the empty string is falsy and leaves
  the zero value, and an object is copied as it is.
\<close>

definition Interval_of_string :: "string \<Rightarrow> IntervalStorage" where
  "Interval_of_string input = (if input = [] then emptyStorage else parse (trim input) emptyStorage)"

definition Interval_of_storage :: "IntervalStorage \<Rightarrow> IntervalStorage" where
  "Interval_of_storage input = input"

definition add :: "IntervalStorage \<Rightarrow> IntervalStorage \<Rightarrow> IntervalStorage" where
  "add this other =
     (let a = normalizeStorage this; b = normalizeStorage other
      in Interval_of_storage
           \<lparr>months = months a + months b, days = days a + days b,
            microseconds = microseconds a + microseconds b\<rparr>)"

definition subtract :: "IntervalStorage \<Rightarrow> IntervalStorage \<Rightarrow> IntervalStorage" where
  "subtract this other =
     (let a = normalizeStorage this; b = normalizeStorage other
      in Interval_of_storage
           \<lparr>months = months a - months b, days = days a - days b,
            microseconds = microseconds a - microseconds b\<rparr>)"

definition multiply :: "IntervalStorage \<Rightarrow> number \<Rightarrow> IntervalStorage" where
  "multiply this factor =
     (let norm = normalizeStorage this
      in Interval_of_storage
           \<lparr>months = Math_round (months norm * factor), days = Math_round (days norm * factor),
            microseconds = Math_round (microseconds norm * factor)\<rparr>)"

definition equals :: "IntervalStorage \<Rightarrow> IntervalStorage \<Rightarrow> bool" where
  "equals this other =
     (let a = normalizeStorage this; b = normalizeStorage other
      in months a = months b \<and> days a = days b \<and> microseconds a = microseconds b)"

section \<open>The formatter\<close>

text \<open>
  The \<^verbatim>\<open>append\<close> methods push onto the list \<^verbatim>\<open>parts\<close>; here each takes
  the list and returns the longer one. The result is \<open>None\<close> where a number has to be
  written whose text is outside the embedding (see \<open>numToString\<close>).
\<close>

definition plural :: "number \<Rightarrow> string" where
  "plural n = (if n \<noteq> 1 then ''s'' else [])"

definition appendYearsAndMonths :: "string list \<Rightarrow> number \<Rightarrow> string list option" where
  "appendYearsAndMonths parts totalMonths =
     (let absMonths = Math_abs totalMonths;
          years = Math_floor (absMonths / MONTHS_PER_YEAR);
          mons = js_rem absMonths MONTHS_PER_YEAR;
          parts1 =
            (if years > 0
             then map_option (\<lambda>n. parts @ [n @ '' year'' @ plural years])
                    (numToString (Math_sign totalMonths * years))
             else Some parts)
      in case parts1 of
           None \<Rightarrow> None
         | Some ps \<Rightarrow>
             if mons > 0
             then map_option (\<lambda>n. ps @ [n @ '' mon'' @ plural mons])
                    (numToString (Math_sign totalMonths * mons))
             else Some ps)"

definition appendDays :: "string list \<Rightarrow> number \<Rightarrow> string list option" where
  "appendDays parts d =
     (if d \<noteq> 0
      then map_option (\<lambda>n. parts @ [n @ '' day'' @ plural (Math_abs d)]) (numToString d)
      else Some parts)"

record TimeParts =
  hours :: number
  minutes :: number
  seconds :: number
  remainingMicros :: number
  isNegative :: bool

definition decomposeTime :: "number \<Rightarrow> TimeParts" where
  "decomposeTime us =
     (let remaining0 = Math_abs us;
          h = Math_floor (remaining0 / MICROSECONDS_PER_HOUR);
          remaining1 = js_rem remaining0 MICROSECONDS_PER_HOUR;
          m = Math_floor (remaining1 / MICROSECONDS_PER_MINUTE);
          remaining2 = js_rem remaining1 MICROSECONDS_PER_MINUTE;
          s = Math_floor (remaining2 / MICROSECONDS_PER_SECOND);
          remaining3 = js_rem remaining2 MICROSECONDS_PER_SECOND
      in \<lparr>hours = h, minutes = m, seconds = s, remainingMicros = remaining3,
          isNegative = (us < 0)\<rparr>)"

text \<open>
  The local \<^verbatim>\<open>timeStr\<close> of \<^verbatim>\<open>appendTime\<close>, as it is when it is pushed:
  the sign, the three fields padded to two digits, and the fraction padded to six when
  there are microseconds left.
\<close>

definition timeStr :: "number \<Rightarrow> string option" where
  "timeStr us =
     (let t = decomposeTime us
      in case (numToString (hours t), numToString (minutes t), numToString (seconds t)) of
           (Some h, Some m, Some s) \<Rightarrow>
             (let clock = (if isNegative t then ''-'' else []) @ padStart 2 h @ '':''
                            @ padStart 2 m @ '':'' @ padStart 2 s
              in if remainingMicros t > 0
                 then map_option (\<lambda>r. clock @ ''.'' @ padStart 6 r)
                        (numToString (remainingMicros t))
                 else Some clock)
         | _ \<Rightarrow> None)"

definition appendTime :: "string list \<Rightarrow> number \<Rightarrow> bool \<Rightarrow> string list option" where
  "appendTime parts us forceDisplay =
     (if us = 0 \<and> \<not> forceDisplay then Some parts
      else map_option (\<lambda>t. parts @ [t]) (timeStr us))"

definition toPostgresString :: "IntervalStorage \<Rightarrow> string option" where
  "toPostgresString st =
     (let norm = normalizeStorage st
      in case appendYearsAndMonths [] (months norm) of
           None \<Rightarrow> None
         | Some parts1 \<Rightarrow>
             (case appendDays parts1 (days norm) of
                None \<Rightarrow> None
              | Some parts2 \<Rightarrow>
                  (case appendTime parts2 (microseconds norm) (months norm = 0 \<and> days norm = 0) of
                     None \<Rightarrow> None
                   | Some parts3 \<Rightarrow>
                       Some (let s = join_space parts3
                             in if s = [] then ''00:00:00'' else s))))"

section \<open>Rounding as the specification words it\<close>

text \<open>
  The specification speaks of rounding to the nearest integer with a half going away
  from zero. This is that rule, written from the specification's words, to be compared
  with \<open>Math_round\<close>, which is what the source calls.
\<close>

definition roundHalfAwayFromZero :: "number \<Rightarrow> number" where
  "roundHalfAwayFromZero x = Math_sign x * of_int \<lfloor>Math_abs x + 1 / 2\<rfloor>"

text \<open>
  The rule the source follows instead, as a relation between a number and its rounding:
  \<open>r\<close> is whole and nearest to \<open>x\<close>, and at a tie it is the upper of the two.
\<close>

definition nearestTiesUp :: "number \<Rightarrow> number \<Rightarrow> bool" where
  "nearestTiesUp x r = (isInteger r \<and> x - 1 / 2 < r \<and> r \<le> x + 1 / 2)"

section \<open>Evaluation of the parsers, the normalizer and the formatter\<close>

text \<open>
  The results of the model on the inputs named by the properties below, each computed
  from the definitions.
\<close>

lemma parse_iso_full:
  "Interval_of_string ''P1Y2M3DT4H5M6.789S'' =
     \<lparr>months = 14, days = 3, microseconds = 14706789000\<rparr>"
  by code_simp

lemma tryParseISO8601_full:
  "tryParseISO8601 ''P1Y2M3DT4H5M6.789S'' emptyStorage =
     Some \<lparr>months = 14, days = 3, microseconds = 14706789000\<rparr>"
  by code_simp

lemma normalize_iso_full:
  "normalizeStorage \<lparr>months = 14, days = 3, microseconds = 14706789000\<rparr> =
     \<lparr>months = 14, days = 3, microseconds = 14706789000\<rparr>"
  by code_simp

lemma parse_24_hours:
  "Interval_of_string ''24 hours'' = \<lparr>months = 0, days = 0, microseconds = 86400000000\<rparr>"
  by code_simp

lemma parse_1_day:
  "Interval_of_string ''1 day'' = \<lparr>months = 0, days = 1, microseconds = 0\<rparr>"
  by code_simp

lemma parse_60_minutes:
  "Interval_of_string ''60 minutes'' = \<lparr>months = 0, days = 0, microseconds = 3600000000\<rparr>"
  by code_simp

lemma parse_1_hour:
  "Interval_of_string ''1 hour'' = \<lparr>months = 0, days = 0, microseconds = 3600000000\<rparr>"
  by code_simp

lemma parse_3600_seconds:
  "Interval_of_string ''3600 seconds'' = \<lparr>months = 0, days = 0, microseconds = 3600000000\<rparr>"
  by code_simp

lemma parse_1_month_30_days:
  "Interval_of_string ''1 month 30 days'' = \<lparr>months = 1, days = 30, microseconds = 0\<rparr>"
  by code_simp

lemma parse_30_days_1_month:
  "Interval_of_string ''30 days 1 month'' = \<lparr>months = 1, days = 30, microseconds = 0\<rparr>"
  by code_simp

lemma parse_1_month:
  "Interval_of_string ''1 month'' = \<lparr>months = 1, days = 0, microseconds = 0\<rparr>"
  by code_simp

lemma parse_30_days:
  "Interval_of_string ''30 days'' = \<lparr>months = 0, days = 30, microseconds = 0\<rparr>"
  by code_simp

lemma normalize_one_day_of_microseconds:
  "normalizeStorage \<lparr>months = 0, days = 0, microseconds = 86400000000\<rparr> =
     \<lparr>months = 0, days = 1, microseconds = 0\<rparr>"
  by code_simp

lemma normalize_zero_microseconds:
  "normalizeStorage \<lparr>months = m, days = d, microseconds = 0\<rparr> =
     \<lparr>months = m, days = d, microseconds = 0\<rparr>"
  by (simp add: normalizeStorage_def normalizeMicroseconds_def Math_floor_def js_rem_def
      js_trunc_def)

lemma normalize_one_hour:
  "normalizeStorage \<lparr>months = 0, days = 0, microseconds = 3600000000\<rparr> =
     \<lparr>months = 0, days = 0, microseconds = 3600000000\<rparr>"
  by code_simp

lemma parse_1_year_minus_2_months:
  "Interval_of_string ''1 year -2 months'' = \<lparr>months = 14, days = 0, microseconds = 0\<rparr>"
  by code_simp

lemma parse_1_day_minus_12_hours:
  "Interval_of_string ''1 day -12 hours'' =
     \<lparr>months = 0, days = 1, microseconds = 43200000000\<rparr>"
  by code_simp

lemma normalize_1_day_12_hours:
  "normalizeStorage \<lparr>months = 0, days = 1, microseconds = 43200000000\<rparr> =
     \<lparr>months = 0, days = 1, microseconds = 43200000000\<rparr>"
  by code_simp

lemma normalize_minus_one_microsecond:
  "normalizeStorage \<lparr>months = 0, days = 0, microseconds = - 1\<rparr> =
     \<lparr>months = 0, days = - 2, microseconds = 86399999999\<rparr>"
  by code_simp

lemma floor_minus_one_microsecond:
  "Math_floor (- 1 / MICROSECONDS_PER_DAY) = - 1"
  by code_simp

lemma parse_day_and_clock_units:
  "Interval_of_string ''1 day 2 hours 3 minutes 4 seconds'' =
     \<lparr>months = 0, days = 1, microseconds = 7384000000\<rparr>"
  by code_simp

lemma normalize_day_and_clock:
  "normalizeStorage \<lparr>months = 0, days = 1, microseconds = 7384000000\<rparr> =
     \<lparr>months = 0, days = 1, microseconds = 7384000000\<rparr>"
  by code_simp

lemma render_day_and_clock:
  "toPostgresString \<lparr>months = 0, days = 1, microseconds = 7384000000\<rparr> =
     Some ''1 day 02:03:04''"
  by code_simp

lemma parse_day_and_clock_text:
  "Interval_of_string ''1 day 02:03:04'' = \<lparr>months = 0, days = 1, microseconds = 0\<rparr>"
  by code_simp

lemma parse_negated_iso_day:
  "Interval_of_string ''-P1D'' = \<lparr>months = 0, days = - 1, microseconds = 0\<rparr>"
  by code_simp

lemma render_minus_one_day:
  "toPostgresString \<lparr>months = 0, days = - 1, microseconds = 0\<rparr> = Some ''-1 day''"
  by code_simp

lemma parse_minus_one_day_text:
  "Interval_of_string ''-1 day'' = \<lparr>months = 0, days = 1, microseconds = 0\<rparr>"
  by code_simp

lemma parse_fractional_days:
  "Interval_of_string ''2.5 days'' = \<lparr>months = 0, days = 5 / 2, microseconds = 0\<rparr>"
  by code_simp

lemma parse_fractional_months:
  "Interval_of_string ''1.5 months'' = \<lparr>months = 3 / 2, days = 0, microseconds = 0\<rparr>"
  by code_simp

lemma halves_not_whole:
  "\<not> isInteger (5 / 2)" "\<not> isInteger (3 / 2)"
  by code_simp+

lemma parse_0_seconds:
  "Interval_of_string ''0 seconds'' = \<lparr>months = 0, days = 0, microseconds = 0\<rparr>"
  by code_simp

lemma render_zero:
  "toPostgresString \<lparr>months = 0, days = 0, microseconds = 0\<rparr> = Some ''00:00:00''"
  by code_simp

lemma render_123000:
  "toPostgresString \<lparr>months = 0, days = 0, microseconds = 123000\<rparr> = Some ''00:00:00.123000''"
  by code_simp

section \<open>Properties of the scenarios\<close>

text \<open>
  C5. The ISO-8601 scenario: the input \<^verbatim>\<open>P1Y2M3DT4H5M6.789S\<close> is taken by the
  ISO-8601 parser, and the normalized snapshot of the interval built from it has 14 months
  (one year is twelve months, plus two), 3 days and 14706789000 microseconds (four hours,
  five minutes and 6.789 seconds through \<open>addTime\<close>).
\<close>

theorem iso8601_scenario:
  "tryParseISO8601 ''P1Y2M3DT4H5M6.789S'' emptyStorage =
     Some \<lparr>months = 14, days = 3, microseconds = 14706789000\<rparr>
   \<and> getStorage (Interval_of_string ''P1Y2M3DT4H5M6.789S'') =
     \<lparr>months = 1 * 12 + 2, days = 3,
      microseconds = 4 * 3600000000 + 5 * 60000000 + 6789000\<rparr>
   \<and> getStorage (Interval_of_string ''P1Y2M3DT4H5M6.789S'') =
     \<lparr>months = 14, days = 3, microseconds = 14706789000\<rparr>"
  by (simp add: getStorage_def parse_iso_full normalize_iso_full tryParseISO8601_full)

text \<open>
  C6. Unit equivalence under \<open>equals\<close>: 24 hours and 1 day are equal, both with the
  normalized snapshot of no months, one day and no microseconds; 60 minutes and 1 hour
  are equal; 3600 seconds and 1 hour are equal; 1 month 30 days and 30 days 1 month are
  equal; 1 month and 30 days are not equal.
\<close>

theorem unit_equivalence:
  "equals (Interval_of_string ''24 hours'') (Interval_of_string ''1 day'')
   \<and> getStorage (Interval_of_string ''24 hours'') = \<lparr>months = 0, days = 1, microseconds = 0\<rparr>
   \<and> getStorage (Interval_of_string ''1 day'') = \<lparr>months = 0, days = 1, microseconds = 0\<rparr>
   \<and> equals (Interval_of_string ''60 minutes'') (Interval_of_string ''1 hour'')
   \<and> equals (Interval_of_string ''3600 seconds'') (Interval_of_string ''1 hour'')
   \<and> equals (Interval_of_string ''1 month 30 days'') (Interval_of_string ''30 days 1 month'')
   \<and> \<not> equals (Interval_of_string ''1 month'') (Interval_of_string ''30 days'')"
  by (simp add: equals_def getStorage_def parse_24_hours parse_1_day parse_60_minutes
      parse_1_hour parse_3600_seconds parse_1_month_30_days parse_30_days_1_month
      parse_1_month parse_30_days normalize_one_day_of_microseconds
      normalize_zero_microseconds normalize_one_hour)

text \<open>
  C2, on the code. The verbose parser reads the token \<^verbatim>\<open>-2\<close> as the value -2 and
  also raises its negative flag, and \<open>tryParseUnit\<close> multiplies the value by -1
  because of the flag: the two signs cancel. So \<^verbatim>\<open>1 year -2 months\<close> has 14
  months, and \<^verbatim>\<open>1 day -12 hours\<close> has one day and 43200000000 microseconds
  before and after normalization, where the property asks for 10 months, and for
  -43200000000 microseconds that normalize to no days and 43200000000 microseconds.
\<close>

theorem verbose_sign_cancels:
  "months (Interval_of_string ''1 year -2 months'') = 14
   \<and> Interval_of_string ''1 day -12 hours'' =
       \<lparr>months = 0, days = 1, microseconds = 43200000000\<rparr>
   \<and> getStorage (Interval_of_string ''1 day -12 hours'') =
       \<lparr>months = 0, days = 1, microseconds = 43200000000\<rparr>"
  by (simp add: getStorage_def parse_1_year_minus_2_months parse_1_day_minus_12_hours
      normalize_1_day_12_hours)

text \<open>
  C3, on the code. \<open>normalizeMicroseconds\<close> takes the floor of the quotient and then,
  for a negative value with a remainder, subtracts one more day. At -1 microsecond the
  floor is -1, and the normalized value has -2 days and 86399999999 microseconds, where
  the property asks for \<open>days + floor\<close>, that is -1 day.
\<close>

theorem normalize_subtracts_a_day_twice:
  "normalizeStorage \<lparr>months = 0, days = 0, microseconds = - 1\<rparr> =
     \<lparr>months = 0, days = - 2, microseconds = 86399999999\<rparr>
   \<and> days \<lparr>months = 0, days = 0, microseconds = - 1\<rparr>
       + Math_floor (microseconds \<lparr>months = 0, days = 0, microseconds = - 1\<rparr>
           / MICROSECONDS_PER_DAY) = - 1"
  using floor_minus_one_microsecond by (simp add: normalize_minus_one_microsecond)

text \<open>
  C1, on the code. Two inputs of the test suite do not survive the round trip. The
  interval of \<^verbatim>\<open>1 day 2 hours 3 minutes 4 seconds\<close> is written as
  \<^verbatim>\<open>1 day 02:03:04\<close>, and the verbose parser skips the clock token when it
  reads that text back, so the microseconds are lost. The interval of
  \<^verbatim>\<open>-P1D\<close> is written as \<^verbatim>\<open>-1 day\<close>, which the verbose parser
  reads as plus one day.
\<close>

theorem round_trip_fails:
  "toPostgresString (Interval_of_string ''1 day 2 hours 3 minutes 4 seconds'') =
     Some ''1 day 02:03:04''
   \<and> getStorage (Interval_of_string ''1 day 2 hours 3 minutes 4 seconds'') =
       \<lparr>months = 0, days = 1, microseconds = 7384000000\<rparr>
   \<and> getStorage (Interval_of_string ''1 day 02:03:04'') =
       \<lparr>months = 0, days = 1, microseconds = 0\<rparr>
   \<and> toPostgresString (Interval_of_string ''-P1D'') = Some ''-1 day''
   \<and> getStorage (Interval_of_string ''-P1D'') = \<lparr>months = 0, days = - 1, microseconds = 0\<rparr>
   \<and> getStorage (Interval_of_string ''-1 day'') = \<lparr>months = 0, days = 1, microseconds = 0\<rparr>
   \<and> getStorage (Interval_of_string ''1 day 02:03:04'')
       \<noteq> getStorage (Interval_of_string ''1 day 2 hours 3 minutes 4 seconds'')
   \<and> getStorage (Interval_of_string ''-1 day'') \<noteq> getStorage (Interval_of_string ''-P1D'')"
  by (simp add: getStorage_def parse_day_and_clock_units render_day_and_clock
      normalize_day_and_clock parse_day_and_clock_text parse_negated_iso_day
      render_minus_one_day parse_minus_one_day_text normalize_zero_microseconds)

text \<open>
  C9, on the code. \<open>addDays\<close> and \<open>addMonths\<close> add the magnitude as it was read,
  without rounding: the interval of \<^verbatim>\<open>2.5 days\<close> stores two and a half days,
  and that of \<^verbatim>\<open>1.5 months\<close> one and a half months, in the stored value and in
  the snapshot of \<open>getStorage\<close> alike.
\<close>

theorem fractional_fields_are_stored:
  "Interval_of_string ''2.5 days'' = \<lparr>months = 0, days = 5 / 2, microseconds = 0\<rparr>
   \<and> \<not> isInteger (days (Interval_of_string ''2.5 days''))
   \<and> \<not> isInteger (days (getStorage (Interval_of_string ''2.5 days'')))
   \<and> \<not> isInteger (months (Interval_of_string ''1.5 months''))
   \<and> \<not> isInteger (months (getStorage (Interval_of_string ''1.5 months'')))"
  by (simp add: getStorage_def parse_fractional_days parse_fractional_months
      normalize_zero_microseconds halves_not_whole)

section \<open>Arithmetic of the normalizer and of the digit strings\<close>


lemma MICROSECONDS_values:
  "MICROSECONDS_PER_DAY = 86400000000" "MICROSECONDS_PER_HOUR = 3600000000"
  "MICROSECONDS_PER_MINUTE = 60000000" "MICROSECONDS_PER_SECOND = 1000000"
  by (simp_all add: MICROSECONDS_PER_DAY_def MICROSECONDS_PER_HOUR_def
      MICROSECONDS_PER_MINUTE_def MICROSECONDS_PER_SECOND_def SECONDS_PER_MINUTE_def
      MINUTES_PER_HOUR_def HOURS_PER_DAY_def)

lemma js_rem_bounds_nonneg:
  assumes "0 \<le> a" "0 < b"
  shows "0 \<le> js_rem a b \<and> js_rem a b < b"
proof -
  have q: "\<not> a / b < 0"
    using assms by (simp add: not_less)
  have "of_int \<lfloor>a / b\<rfloor> * b \<le> a" "a < (of_int \<lfloor>a / b\<rfloor> + 1) * b"
    using assms(2) by (rule floor_divide_lower, rule floor_divide_upper)
  then show ?thesis
    using q by (simp add: js_rem_def js_trunc_def algebra_simps)
qed

lemma js_rem_bounds_neg:
  assumes "a < 0" "0 < b"
  shows "- b < js_rem a b \<and> js_rem a b \<le> 0"
proof -
  have q: "a / b < 0"
    using assms by (simp add: divide_neg_pos)
  have "(of_int \<lceil>a / b\<rceil> - 1) * b < a" "a \<le> of_int \<lceil>a / b\<rceil> * b"
    using assms(2) by (rule ceiling_divide_lower, rule ceiling_divide_upper)
  then show ?thesis
    using q by (simp add: js_rem_def js_trunc_def algebra_simps)
qed

lemma normalized_microseconds_range:
  "0 \<le> microseconds (normalizeStorage st) \<and> microseconds (normalizeStorage st) < MICROSECONDS_PER_DAY"
proof (cases "microseconds st < 0")
  case True
  with js_rem_bounds_neg [of "microseconds st" MICROSECONDS_PER_DAY] show ?thesis
    by (auto simp: normalizeStorage_def normalizeMicroseconds_def Let_def MICROSECONDS_values)
next
  case False
  with js_rem_bounds_nonneg [of "microseconds st" MICROSECONDS_PER_DAY] show ?thesis
    by (auto simp: normalizeStorage_def normalizeMicroseconds_def Let_def MICROSECONDS_values)
qed

lemma Math_floor_of_int_div: "Math_floor (of_int a / of_int b) = of_int (a div b)"
  by (simp add: Math_floor_def floor_divide_of_int_eq)

lemma js_rem_nonneg_int:
  assumes "0 \<le> a" "0 < b"
  shows "js_rem (of_int a) (of_int b) = of_int (a mod b)"
proof -
  have "\<not> (of_int a / of_int b :: rat) < 0"
    using assms by (simp add: not_less)
  then have "js_trunc (of_int a / of_int b) = a div b"
    by (simp add: js_trunc_def floor_divide_of_int_eq)
  then show ?thesis
    by (simp add: js_rem_def minus_mult_div_eq_mod [symmetric])
qed

lemma js_rem_neg_int:
  assumes "a < 0" "0 < b"
  shows "js_rem (of_int a) (of_int b) = - of_int ((- a) mod b)"
proof -
  have neg: "(of_int a / of_int b :: rat) < 0"
    using assms by (simp add: divide_neg_pos)
  have "- (of_int a / of_int b :: rat) = of_int (- a) / of_int b"
    by simp
  then have "\<lfloor>- (of_int a / of_int b :: rat)\<rfloor> = (- a) div b"
    by (simp only: floor_divide_of_int_eq)
  then have "\<lceil>of_int a / of_int b :: rat\<rceil> = - ((- a) div b)"
    by (simp only: ceiling_def)
  with neg have "js_trunc (of_int a / of_int b) = - ((- a) div b)"
    by (simp add: js_trunc_def)
  then show ?thesis
    by (simp add: js_rem_def minus_mult_div_eq_mod [symmetric])
qed

lemma mod_of_negation:
  fixes n b :: int
  assumes "0 < b"
  shows "((- n) mod b = 0) = (n mod b = 0)"
    and "n mod b \<noteq> 0 \<Longrightarrow> b - (- n) mod b = n mod b"
  using pos_mod_bound [OF assms, of n] by (auto simp: zmod_zminus1_eq_if)

lemma normalizeStorage_of_int:
  assumes "microseconds st = of_int n"
  shows "normalizeStorage st =
     \<lparr>months = months st,
      days = days st + of_int (n div 86400000000)
               - (if n < 0 \<and> n mod 86400000000 \<noteq> 0 then 1 else 0),
      microseconds = of_int (n mod 86400000000)\<rparr>"
proof -
  define b :: int where "b = 86400000000"
  have b: "0 < b" "MICROSECONDS_PER_DAY = of_int b"
    by (simp_all add: b_def MICROSECONDS_values)
  have f: "Math_floor (of_int n / of_int b) = of_int (n div b)"
    by (rule Math_floor_of_int_div)
  show ?thesis
  proof (cases "n < 0")
    case True
    have r: "js_rem (of_int n) (of_int b) = - of_int ((- n) mod b)"
      using True b(1) by (rule js_rem_neg_int)
    have "n mod b \<noteq> 0 \<Longrightarrow> of_int b - (of_int ((- n) mod b) :: rat) = of_int (n mod b)"
      using mod_of_negation(2) [OF b(1), of n] by (metis of_int_diff)
    then have "normalizeStorage st =
       \<lparr>months = months st,
        days = days st + of_int (n div b) - (if n < 0 \<and> n mod b \<noteq> 0 then 1 else 0),
        microseconds = of_int (n mod b)\<rparr>"
      using True mod_of_negation(1) [OF b(1), of n]
      by (simp add: normalizeStorage_def normalizeMicroseconds_def Let_def b(2) assms r f)
    then show ?thesis
      by (simp add: b_def)
  next
    case False
    then have r: "js_rem (of_int n) (of_int b) = of_int (n mod b)"
      using b(1) by (simp add: js_rem_nonneg_int)
    have "normalizeStorage st =
       \<lparr>months = months st,
        days = days st + of_int (n div b) - (if n < 0 \<and> n mod b \<noteq> 0 then 1 else 0),
        microseconds = of_int (n mod b)\<rparr>"
      using False
      by (simp add: normalizeStorage_def normalizeMicroseconds_def Let_def b(2) assms r f)
    then show ?thesis
      by (simp add: b_def)
  qed
qed


lemma char_of_digit:
  "char_of (48 :: int) = CHR ''0''" "char_of (49 :: int) = CHR ''1''"
  "char_of (50 :: int) = CHR ''2''" "char_of (51 :: int) = CHR ''3''"
  "char_of (52 :: int) = CHR ''4''" "char_of (53 :: int) = CHR ''5''"
  "char_of (54 :: int) = CHR ''6''" "char_of (55 :: int) = CHR ''7''"
  "char_of (56 :: int) = CHR ''8''" "char_of (57 :: int) = CHR ''9''"
  by code_simp+

lemma digit_char_is_digit:
  fixes n :: int
  assumes "0 \<le> n" "n < 10"
  shows "isDigit (char_of (48 + n))"
proof -
  from assms have "n \<in> {0, 1, 2, 3, 4, 5, 6, 7, 8, 9}"
    by (simp only: insert_iff empty_iff) arith
  then show ?thesis
    by (auto simp: isDigit_def char_of_digit)
qed

lemma digits_all_digits: "0 \<le> n \<Longrightarrow> digits n \<noteq> [] \<and> list_all isDigit (digits n)"
proof (induction n rule: digits.induct)
  case (1 n)
  show ?case
  proof (cases "n < 10")
    case True
    with "1.prems" show ?thesis
      by (simp add: digits.simps [of n] digit_char_is_digit)
  next
    case False
    with "1.prems" have "0 \<le> n div 10" "0 \<le> n mod 10" "n mod 10 < 10"
      by simp_all
    with False "1.IH" show ?thesis
      by (simp add: digits.simps [of n] digit_char_is_digit)
  qed
qed

lemma length_digits: "0 \<le> n \<Longrightarrow> n < 10 ^ Suc k \<Longrightarrow> length (digits n) \<le> Suc k"
proof (induction n arbitrary: k rule: digits.induct)
  case (1 n)
  show ?case
  proof (cases "n < 10")
    case True
    then show ?thesis
      by (simp add: digits.simps [of n])
  next
    case False
    with "1.prems" obtain j where k: "k = Suc j"
      by (cases k) auto
    define m :: int where "m = 10 ^ Suc j"
    from "1.prems" k have "n < 10 * m"
      by (simp add: m_def)
    then have "n div 10 < m"
      by arith
    then have "n div 10 < 10 ^ Suc j"
      by (simp only: m_def)
    moreover from "1.prems" have "0 \<le> n div 10"
      by simp
    ultimately have "length (digits (n div 10)) \<le> Suc j"
      using "1.IH" False by blast
    with False k show ?thesis
      by (simp add: digits.simps [of n])
  qed
qed

lemma digitValue_digit_char:
  fixes n :: int
  assumes "0 \<le> n" "n < 10"
  shows "digitValue (char_of (48 + n)) = n"
  using assms by (simp add: digitValue_def of_char_of)

lemma digitsValue_digits: "0 \<le> n \<Longrightarrow> digitsValue (digits n) = n"
proof (induction n rule: digits.induct)
  case (1 n)
  show ?case
  proof (cases "n < 10")
    case True
    with "1.prems" show ?thesis
      by (simp add: digits.simps [of n] digitsValue_def digitValue_digit_char)
  next
    case False
    with "1.prems" have "0 \<le> n div 10" "0 \<le> n mod 10" "n mod 10 < 10"
      by simp_all
    with False "1.IH" show ?thesis
      by (simp add: digits.simps [of n] digitsValue_def digitValue_digit_char)
  qed
qed

lemma digitsValue_zeros: "digitsValue (replicate k CHR ''0'' @ ds) = digitsValue ds"
  by (induction k) (simp_all add: digitsValue_def digitValue_def)

lemma parseInt_padStart_digits:
  "0 \<le> n \<Longrightarrow> parseInt (padStart k (digits n)) = of_int n"
  using digitsValue_digits [of n] digitsValue_zeros [of _ "digits n"]
  by (simp add: parseInt_def padStart_def digitsValue_def)

lemma length_padStart: "length (padStart k s) = max k (length s)"
  by (simp add: padStart_def)

lemma list_all_padStart: "list_all isDigit s \<Longrightarrow> list_all isDigit (padStart k s)"
proof -
  have "isDigit CHR ''0''"
    by (simp add: isDigit_def)
  then show "list_all isDigit s \<Longrightarrow> list_all isDigit (padStart k s)"
    by (auto simp: padStart_def list_all_iff)
qed

lemma numToString_of_int:
  "0 \<le> n \<Longrightarrow> n < 10 ^ 21 \<Longrightarrow> numToString (of_int n) = Some (digits n)"
proof -
  assume n: "0 \<le> n" "n < 10 ^ 21"
  then have "(of_int n :: rat) < of_int (10 ^ 21)"
    by (simp only: of_int_less_iff)
  with n show ?thesis
    by (simp add: numToString_def isInteger_def Math_abs_def)
qed

section \<open>The clock text of a normalized value\<close>

lemma hours_decomposeTime:
  "hours (decomposeTime us) = of_int \<lfloor>Math_abs us / MICROSECONDS_PER_HOUR\<rfloor>"
  "isNegative (decomposeTime us) = (us < 0)"
  by (simp_all add: decomposeTime_def Let_def Math_floor_def)

lemma timeStr_shape:
  assumes "timeStr us = Some t"
  shows "\<exists>h rest. numToString (hours (decomposeTime us)) = Some h
           \<and> t = (if isNegative (decomposeTime us) then ''-'' else []) @ padStart 2 h @ rest"
proof (cases "numToString (hours (decomposeTime us))")
  case None
  with assms show ?thesis
    by (simp add: timeStr_def Let_def)
next
  case h: (Some h)
  show ?thesis
  proof (cases "numToString (minutes (decomposeTime us))")
    case None
    with assms h show ?thesis
      by (simp add: timeStr_def Let_def)
  next
    case m: (Some m)
    show ?thesis
    proof (cases "numToString (seconds (decomposeTime us))")
      case None
      with assms h m show ?thesis
        by (simp add: timeStr_def Let_def)
    next
      case s: (Some s)
      show ?thesis
      proof (cases "remainingMicros (decomposeTime us) > 0")
        case True
        with assms h m s obtain r where
          "t = (if isNegative (decomposeTime us) then ''-'' else []) @ padStart 2 h @ '':''
                 @ padStart 2 m @ '':'' @ padStart 2 s @ ''.'' @ padStart 6 r"
          by (auto simp: timeStr_def Let_def)
        with h show ?thesis
          by - (rule exI [of _ h],
              rule exI [of _ "'':'' @ padStart 2 m @ '':'' @ padStart 2 s @ ''.'' @ padStart 6 r"],
              simp)
      next
        case False
        with assms h m s have
          "t = (if isNegative (decomposeTime us) then ''-'' else []) @ padStart 2 h @ '':''
                 @ padStart 2 m @ '':'' @ padStart 2 s"
          by (auto simp: timeStr_def Let_def)
        with h show ?thesis
          by - (rule exI [of _ h],
              rule exI [of _ "'':'' @ padStart 2 m @ '':'' @ padStart 2 s"], simp)
      qed
    qed
  qed
qed


lemma hd_padStart_digit:
  assumes "s \<noteq> []" "isDigit (hd s)"
  shows "padStart k s @ rest \<noteq> [] \<and> isDigit (hd (padStart k s @ rest))"
proof (cases "k - length s")
  case 0
  with assms show ?thesis
    by (simp add: padStart_def)
next
  case (Suc j)
  have "isDigit CHR ''0''"
    by (simp add: isDigit_def)
  with Suc show ?thesis
    by (simp add: padStart_def)
qed

lemma numToString_nonneg_int:
  assumes "0 \<le> j" "numToString (of_int j) = Some s"
  shows "s = digits j"
  using assms by (simp add: numToString_def Math_abs_def isInteger_def split: if_splits)

lemma timeStr_starts_with_digit:
  assumes "0 \<le> us" "timeStr us = Some t"
  shows "t \<noteq> [] \<and> isDigit (hd t)"
proof -
  define j where "j = \<lfloor>Math_abs us / MICROSECONDS_PER_HOUR\<rfloor>"
  have j: "0 \<le> j"
    using assms(1) by (simp add: j_def Math_abs_def MICROSECONDS_values)
  have d: "hours (decomposeTime us) = of_int j" "\<not> isNegative (decomposeTime us)"
    using assms(1) by (simp_all add: hours_decomposeTime j_def)
  from timeStr_shape [OF assms(2)] obtain h rest where h: "numToString (of_int j) = Some h"
    and t: "t = padStart 2 h @ rest"
    by (auto simp: d)
  from j h have "h = digits j"
    by (rule numToString_nonneg_int)
  with digits_all_digits [OF j] have ne: "h \<noteq> []" and "list_all isDigit h"
    by simp_all
  then have "isDigit (hd h)"
    by (cases h) simp_all
  with ne show ?thesis
    unfolding t by (rule hd_padStart_digit)
qed

lemma decomposeTime_of_int:
  assumes "0 \<le> k"
  shows "decomposeTime (of_int k) =
     \<lparr>hours = of_int (k div 3600000000),
      minutes = of_int (k mod 3600000000 div 60000000),
      seconds = of_int (k mod 3600000000 mod 60000000 div 1000000),
      remainingMicros = of_int (k mod 3600000000 mod 60000000 mod 1000000),
      isNegative = False\<rparr>"
proof -
  have a: "Math_abs (of_int k) = of_int k" "\<not> (of_int k :: rat) < 0"
    using assms by (simp_all add: Math_abs_def)
  have f: "Math_floor (of_int j / 3600000000) = of_int (j div 3600000000)"
    "Math_floor (of_int j / 60000000) = of_int (j div 60000000)"
    "Math_floor (of_int j / 1000000) = of_int (j div 1000000)" for j
    using Math_floor_of_int_div [of j 3600000000] Math_floor_of_int_div [of j 60000000]
      Math_floor_of_int_div [of j 1000000]
    by simp_all
  have r: "0 \<le> j \<Longrightarrow> js_rem (of_int j) 3600000000 = of_int (j mod 3600000000)"
    "0 \<le> j \<Longrightarrow> js_rem (of_int j) 60000000 = of_int (j mod 60000000)"
    "0 \<le> j \<Longrightarrow> js_rem (of_int j) 1000000 = of_int (j mod 1000000)" for j
    using js_rem_nonneg_int [of j 3600000000] js_rem_nonneg_int [of j 60000000]
      js_rem_nonneg_int [of j 1000000]
    by simp_all
  show ?thesis
    using assms by (simp add: decomposeTime_def Let_def MICROSECONDS_values a f r)
qed

lemma timeStr_of_int:
  assumes "0 \<le> k" "k < 86400000000"
  shows "timeStr (of_int k) =
     Some (padStart 2 (digits (k div 3600000000)) @ '':''
           @ padStart 2 (digits (k mod 3600000000 div 60000000)) @ '':''
           @ padStart 2 (digits (k mod 3600000000 mod 60000000 div 1000000))
           @ (if 0 < k mod 3600000000 mod 60000000 mod 1000000
              then ''.'' @ padStart 6 (digits (k mod 3600000000 mod 60000000 mod 1000000))
              else []))"
proof -
  have h: "0 \<le> k div 3600000000" "k div 3600000000 < 10 ^ 21"
    using assms by simp_all
  have m: "0 \<le> k mod 3600000000 div 60000000" "k mod 3600000000 div 60000000 < 10 ^ 21"
    using assms by simp_all
  have s: "0 \<le> k mod 3600000000 mod 60000000 div 1000000"
    "k mod 3600000000 mod 60000000 div 1000000 < 10 ^ 21"
    using assms by simp_all
  have u: "0 \<le> k mod 3600000000 mod 60000000 mod 1000000"
    "k mod 3600000000 mod 60000000 mod 1000000 < 10 ^ 21"
    using assms by simp_all
  show ?thesis
    using assms(1)
    by (simp add: timeStr_def decomposeTime_of_int numToString_of_int [OF h]
        numToString_of_int [OF m] numToString_of_int [OF s] numToString_of_int [OF u])
qed

text \<open>
  C10. The microseconds of a normalized snapshot are never negative, and they are below
  one day when the stored microseconds are a whole number. So \<open>decomposeTime\<close> never
  reports a negative value on the rendering path, and every clock text that
  \<open>appendTime\<close> pushes for a normalized value begins with a digit, not with a minus
  sign.
\<close>

theorem normalized_microseconds_never_negative:
  "0 \<le> microseconds (normalizeStorage st)
   \<and> (isInteger (microseconds st) \<longrightarrow>
        microseconds (normalizeStorage st) < MICROSECONDS_PER_DAY)
   \<and> \<not> isNegative (decomposeTime (microseconds (normalizeStorage st)))
   \<and> (\<forall>parts forceDisplay ps.
        appendTime parts (microseconds (normalizeStorage st)) forceDisplay = Some ps \<longrightarrow>
        ps = parts \<or> (\<exists>t. ps = parts @ [t] \<and> t \<noteq> [] \<and> isDigit (hd t) \<and> hd t \<noteq> CHR ''-''))"
proof -
  have r: "0 \<le> microseconds (normalizeStorage st)"
    "microseconds (normalizeStorage st) < MICROSECONDS_PER_DAY"
    using normalized_microseconds_range [of st] by simp_all
  have n: "\<not> isNegative (decomposeTime (microseconds (normalizeStorage st)))"
    using r(1) by (simp add: decomposeTime_def Let_def)
  have "ps = parts \<or> (\<exists>t. ps = parts @ [t] \<and> t \<noteq> [] \<and> isDigit (hd t) \<and> hd t \<noteq> CHR ''-'')"
    if "appendTime parts (microseconds (normalizeStorage st)) forceDisplay = Some ps"
    for parts forceDisplay ps
  proof -
    have minus: "\<not> isDigit CHR ''-''"
      by (simp add: isDigit_def)
    from that consider "ps = parts"
      | t where "timeStr (microseconds (normalizeStorage st)) = Some t" "ps = parts @ [t]"
      by (auto simp: appendTime_def split: if_splits)
    then show ?thesis
    proof cases
      case 1
      then show ?thesis by simp
    next
      case 2
      with timeStr_starts_with_digit [OF r(1) 2(1)] minus show ?thesis
        by auto
    qed
  qed
  with r n show ?thesis
    by blast
qed


theorem normalized_microseconds_never_negative_witness:
  "isInteger (microseconds \<lparr>months = 0, days = 0, microseconds = - 1\<rparr>)
   \<and> microseconds (normalizeStorage \<lparr>months = 0, days = 0, microseconds = - 1\<rparr>)
       < MICROSECONDS_PER_DAY
   \<and> appendTime [] (microseconds (normalizeStorage \<lparr>months = 0, days = 0, microseconds = - 1\<rparr>))
        False = Some [''23:59:59.999999'']
   \<and> isDigit (hd ''23:59:59.999999'') \<and> hd ''23:59:59.999999'' \<noteq> CHR ''-''"
proof -
  let ?st = "\<lparr>months = 0, days = 0, microseconds = - 1\<rparr>"
  have i: "isInteger (microseconds ?st)"
    by (simp add: isInteger_def)
  have "timeStr 86399999999 = Some ''23:59:59.999999''"
    using timeStr_of_int [of 86399999999]
    by (simp add: padStart_def digits.simps char_of_digit)
  then have a: "appendTime [] (microseconds (normalizeStorage ?st)) False
      = Some [''23:59:59.999999'']"
    by (simp add: appendTime_def normalize_minus_one_microsecond)
  from normalized_microseconds_never_negative [of ?st]
  have b: "isInteger (microseconds ?st) \<longrightarrow>
        microseconds (normalizeStorage ?st) < MICROSECONDS_PER_DAY"
    and c: "\<forall>parts forceDisplay ps.
        appendTime parts (microseconds (normalizeStorage ?st)) forceDisplay = Some ps \<longrightarrow>
        ps = parts \<or> (\<exists>t. ps = parts @ [t] \<and> t \<noteq> [] \<and> isDigit (hd t) \<and> hd t \<noteq> CHR ''-'')"
    by blast+
  from b i have lt: "microseconds (normalizeStorage ?st) < MICROSECONDS_PER_DAY"
    by blast
  from c a have "[''23:59:59.999999''] = []
      \<or> (\<exists>t. [''23:59:59.999999''] = [] @ [t] \<and> t \<noteq> [] \<and> isDigit (hd t) \<and> hd t \<noteq> CHR ''-'')"
    by blast
  then have "isDigit (hd ''23:59:59.999999'') \<and> hd ''23:59:59.999999'' \<noteq> CHR ''-''"
    by auto
  with i lt a show ?thesis
    by blast
qed

section \<open>The text of the zero value and of the fraction\<close>

lemma timeStr_zero: "timeStr 0 = Some ''00:00:00''"
  using timeStr_of_int [of 0] by (simp add: padStart_def digits.simps char_of_digit)

lemma toPostgresString_zero:
  assumes "months (normalizeStorage st) = 0" "days (normalizeStorage st) = 0"
    "microseconds (normalizeStorage st) = 0"
  shows "toPostgresString st = Some ''00:00:00''"
proof -
  have y: "appendYearsAndMonths [] 0 = Some []"
    by (simp add: appendYearsAndMonths_def Let_def Math_abs_def Math_floor_def js_rem_def
        js_trunc_def MONTHS_PER_YEAR_def)
  have d: "appendDays [] 0 = Some []"
    by (simp add: appendDays_def)
  have t: "appendTime [] 0 True = Some [''00:00:00'']"
    by (simp add: appendTime_def timeStr_zero)
  show ?thesis
    by (simp add: toPostgresString_def Let_def assms y d t)
qed

lemma fraction_six_digits:
  assumes "0 \<le> k" "k < 86400000000"
    and r: "k mod 3600000000 mod 60000000 mod 1000000 \<noteq> 0"
  shows "\<exists>clock frac. timeStr (of_int k) = Some (clock @ ''.'' @ frac)
           \<and> length clock = 8 \<and> length frac = 6 \<and> list_all isDigit frac
           \<and> parseInt frac = of_int (k mod 3600000000 mod 60000000 mod 1000000)"
proof -
  define h where "h = k div 3600000000"
  define m where "m = k mod 3600000000 div 60000000"
  define s where "s = k mod 3600000000 mod 60000000 div 1000000"
  define u where "u = k mod 3600000000 mod 60000000 mod 1000000"
  have h: "0 \<le> h" "h < 10 ^ Suc 1"
    using assms(1,2) by (simp_all add: h_def)
  have m: "0 \<le> m" "m < 10 ^ Suc 1"
    using assms(1) by (simp_all add: m_def)
  have s: "0 \<le> s" "s < 10 ^ Suc 1"
    using assms(1) by (simp_all add: s_def)
  have "0 \<le> u" "u < 1000000"
    by (simp_all add: u_def)
  with r have u: "0 < u" "u < 10 ^ Suc 5"
    by (simp_all add: u_def)
  have lh: "length (padStart 2 (digits h)) = 2"
    using length_digits [OF h] by (simp add: length_padStart)
  have lm: "length (padStart 2 (digits m)) = 2"
    using length_digits [OF m] by (simp add: length_padStart)
  have ls: "length (padStart 2 (digits s)) = 2"
    using length_digits [OF s] by (simp add: length_padStart)
  have lu: "length (padStart 6 (digits u)) = 6"
    using length_digits [of u 5] u by (simp add: length_padStart)
  have du: "list_all isDigit (padStart 6 (digits u))"
    using digits_all_digits [of u] u(1) by (simp add: list_all_padStart)
  have pu: "parseInt (padStart 6 (digits u)) = of_int u"
    using u(1) by (simp add: parseInt_padStart_digits)
  have "timeStr (of_int k) =
     Some ((padStart 2 (digits h) @ '':'' @ padStart 2 (digits m) @ '':'' @ padStart 2 (digits s))
           @ ''.'' @ padStart 6 (digits u))"
    using timeStr_of_int [OF assms(1,2)] u(1)
    by (simp add: h_def m_def s_def u_def)
  moreover have "length (padStart 2 (digits h) @ '':'' @ padStart 2 (digits m) @ '':''
      @ padStart 2 (digits s)) = 8"
    by (simp add: lh lm ls)
  ultimately show ?thesis
    using lu du pu unfolding u_def by blast
qed

lemma isInteger_of_int: "isInteger x \<Longrightarrow> x = of_int \<lfloor>x\<rfloor>"
  by (auto simp: isInteger_def)

text \<open>
  On whole microseconds the formatter does what is asked of it. Every interval whose
  normalized months, days and microseconds are all zero is written as
  \<^verbatim>\<open>00:00:00\<close>, the time part being forced by the zero months and days. Whenever
  the stored microseconds are whole and the normalized value has microseconds left below
  the second, the time part is an eight-character clock, a point and a fraction of exactly
  six digits whose value is the microseconds left, so that 123000 is written
  \<^verbatim>\<open>.123000\<close>.
\<close>

lemma whole_microseconds_fraction_six_digits:
  "toPostgresString (Interval_of_string ''0 seconds'') = Some ''00:00:00''
   \<and> (\<forall>st. months (normalizeStorage st) = 0 \<and> days (normalizeStorage st) = 0
           \<and> microseconds (normalizeStorage st) = 0 \<longrightarrow>
         toPostgresString st = Some ''00:00:00'')
   \<and> toPostgresString \<lparr>months = 0, days = 0, microseconds = 123000\<rparr>
       = Some ''00:00:00.123000''
   \<and> (\<forall>st. isInteger (microseconds st)
           \<and> remainingMicros (decomposeTime (microseconds (normalizeStorage st))) \<noteq> 0 \<longrightarrow>
         (\<exists>clock frac.
            timeStr (microseconds (normalizeStorage st)) = Some (clock @ ''.'' @ frac)
            \<and> (\<forall>parts forceDisplay.
                  appendTime parts (microseconds (normalizeStorage st)) forceDisplay
                  = Some (parts @ [clock @ ''.'' @ frac]))
            \<and> length clock = 8 \<and> length frac = 6 \<and> list_all isDigit frac
            \<and> parseInt frac
                = remainingMicros (decomposeTime (microseconds (normalizeStorage st)))))"
proof -
  have general: "\<exists>clock frac.
      timeStr (microseconds (normalizeStorage st)) = Some (clock @ ''.'' @ frac)
      \<and> (\<forall>parts forceDisplay.
            appendTime parts (microseconds (normalizeStorage st)) forceDisplay
            = Some (parts @ [clock @ ''.'' @ frac]))
      \<and> length clock = 8 \<and> length frac = 6 \<and> list_all isDigit frac
      \<and> parseInt frac = remainingMicros (decomposeTime (microseconds (normalizeStorage st)))"
    if i: "isInteger (microseconds st)"
      and r: "remainingMicros (decomposeTime (microseconds (normalizeStorage st))) \<noteq> 0"
    for st
  proof -
    define k where "k = \<lfloor>microseconds st\<rfloor> mod 86400000000"
    have k: "0 \<le> k" "k < 86400000000"
      by (simp_all add: k_def)
    have us: "microseconds (normalizeStorage st) = of_int k"
      using normalizeStorage_of_int [OF isInteger_of_int [OF i]] by (simp add: k_def)
    have rem: "remainingMicros (decomposeTime (microseconds (normalizeStorage st)))
        = of_int (k mod 3600000000 mod 60000000 mod 1000000)"
      by (simp add: us decomposeTime_of_int [OF k(1)])
    with r have nz: "k mod 3600000000 mod 60000000 mod 1000000 \<noteq> 0"
      by auto
    then have "k \<noteq> 0"
      by auto
    then have nz': "microseconds (normalizeStorage st) \<noteq> 0"
      by (simp add: us)
    from fraction_six_digits [OF k nz] obtain clock frac where
      t: "timeStr (of_int k) = Some (clock @ ''.'' @ frac)"
      and l: "length clock = 8" "length frac = 6" "list_all isDigit frac"
      and p: "parseInt frac = of_int (k mod 3600000000 mod 60000000 mod 1000000)"
      by blast
    have "appendTime parts (microseconds (normalizeStorage st)) forceDisplay
        = Some (parts @ [clock @ ''.'' @ frac])" for parts forceDisplay
      using nz' t by (simp add: appendTime_def us)
    with t l p rem us show ?thesis
      by metis
  qed
  have zero: "toPostgresString st = Some ''00:00:00''"
    if "months (normalizeStorage st) = 0 \<and> days (normalizeStorage st) = 0
        \<and> microseconds (normalizeStorage st) = 0" for st
    using that by (simp add: toPostgresString_zero)
  show ?thesis
    using general zero by (simp add: parse_0_seconds render_zero render_123000)
qed

lemma parse_part_of_an_hour:
  "Interval_of_string ''0.00048828125 hours'' =
     \<lparr>months = 0, days = 0, microseconds = 3515625 / 2\<rparr>"
  by code_simp

lemma normalize_part_of_an_hour:
  "normalizeStorage \<lparr>months = 0, days = 0, microseconds = 3515625 / 2\<rparr> =
     \<lparr>months = 0, days = 0, microseconds = 3515625 / 2\<rparr>"
  by code_simp

lemma remaining_part_of_an_hour:
  "remainingMicros (decomposeTime (3515625 / 2)) = 1515625 / 2"
  by code_simp

lemma numToString_part_microseconds: "numToString (1515625 / 2) = Some ''757812.5''"
  by code_simp

lemma timeStr_part_of_an_hour: "timeStr (3515625 / 2) = Some ''00:00:01.757812.5''"
  by code_simp

lemma render_part_of_an_hour:
  "toPostgresString \<lparr>months = 0, days = 0, microseconds = 3515625 / 2\<rparr> =
     Some ''00:00:01.757812.5''"
  by code_simp

lemma render_float_of_eleven_tenths_of_an_hour:
  "toPostgresString \<lparr>months = 0, days = 0, microseconds = 8304721920000001 / 2097152\<rparr> =
     Some ''01:06:00.4.76837158203125e-7''"
  by code_simp

text \<open>
  C7, on the code. The interval of \<^verbatim>\<open>0 seconds\<close> is written as
  \<^verbatim>\<open>00:00:00\<close>, but the fraction is not always six digits. \<open>addTime\<close>
  rounds the microseconds of its seconds only, so hours that are not a whole number of
  microseconds are stored as they are: \<^verbatim>\<open>0.00048828125 hours\<close> (an hour divided
  by 2048) stores 1757812.5 microseconds. The microseconds left below the second are then
  757812.5, and \<open>appendTime\<close> pads and appends the text of that number: the interval
  is written \<^verbatim>\<open>00:00:01.757812.5\<close>, with eight characters and a second point
  after the clock instead of six digits. The stored value 3960000000 + 1/2097152 (what
  \<^verbatim>\<open>1.1 hours\<close> leaves in 64-bit floats) is written
  \<^verbatim>\<open>01:06:00.4.76837158203125e-7\<close>.
\<close>

theorem fraction_of_part_microseconds:
  "toPostgresString (Interval_of_string ''0 seconds'') = Some ''00:00:00''
   \<and> Interval_of_string ''0.00048828125 hours'' =
       \<lparr>months = 0, days = 0, microseconds = 3515625 / 2\<rparr>
   \<and> getStorage (Interval_of_string ''0.00048828125 hours'') =
       \<lparr>months = 0, days = 0, microseconds = 3515625 / 2\<rparr>
   \<and> remainingMicros (decomposeTime
         (microseconds (getStorage (Interval_of_string ''0.00048828125 hours'')))) = 1515625 / 2
   \<and> numToString (1515625 / 2) = Some ''757812.5''
   \<and> timeStr (microseconds (getStorage (Interval_of_string ''0.00048828125 hours'')))
       = Some (''00:00:01'' @ ''.'' @ ''757812.5'')
   \<and> toPostgresString (Interval_of_string ''0.00048828125 hours'')
       = Some ''00:00:01.757812.5''
   \<and> toPostgresString \<lparr>months = 0, days = 0, microseconds = 8304721920000001 / 2097152\<rparr>
       = Some ''01:06:00.4.76837158203125e-7''"
  using remaining_part_of_an_hour timeStr_part_of_an_hour numToString_part_microseconds
    render_float_of_eleven_tenths_of_an_hour
  by (simp add: getStorage_def parse_0_seconds render_zero parse_part_of_an_hour
      normalize_part_of_an_hour render_part_of_an_hour)

section \<open>Rounding\<close>

lemma Math_round_nearestTiesUp: "nearestTiesUp x (Math_round x)"
proof -
  have "of_int \<lfloor>x + 1 / 2\<rfloor> \<le> x + 1 / 2" "x + 1 / 2 < of_int \<lfloor>x + 1 / 2\<rfloor> + 1"
    by linarith+
  then show ?thesis
    by (simp add: nearestTiesUp_def Math_round_def isInteger_def)
qed

lemma nearestTiesUp_unique:
  assumes "nearestTiesUp x r"
  shows "r = Math_round x"
proof -
  from assms obtain z where z: "r = of_int z"
    by (auto simp: nearestTiesUp_def isInteger_def)
  with assms have "of_int z \<le> x + 1 / 2" "x + 1 / 2 < of_int z + 1"
    by (simp_all add: nearestTiesUp_def)
  then have "\<lfloor>x + 1 / 2\<rfloor> = z"
    by (rule floor_unique)
  with z show ?thesis
    by (simp add: Math_round_def)
qed

lemma Math_round_vs_half_away:
  "Math_round x =
     (if x < 0 \<and> isInteger (x + 1 / 2) then roundHalfAwayFromZero x + 1
      else roundHalfAwayFromZero x)"
proof (cases "x < 0")
  case False
  have "\<lfloor>1 / 2 :: rat\<rfloor> = 0"
    by (rule floor_unique) simp_all
  with False show ?thesis
    by (simp add: Math_round_def roundHalfAwayFromZero_def Math_sign_def Math_abs_def)
next
  case True
  have e: "1 / 2 - x = - (x + 1 / 2 - 1)"
    by simp
  have f0: "\<lfloor>1 / 2 - x\<rfloor> = - \<lceil>x + 1 / 2 - 1\<rceil>"
    by (subst e) (simp only: ceiling_def minus_minus)
  have c1: "\<lceil>x + 1 / 2 - 1\<rceil> = \<lceil>x + 1 / 2\<rceil> - 1"
    by (rule ceiling_diff_one)
  have f: "\<lfloor>1 / 2 - x\<rfloor> = - \<lceil>x + 1 / 2\<rceil> + 1"
    unfolding f0 c1 by simp
  have r: "roundHalfAwayFromZero x = of_int \<lceil>x + 1 / 2\<rceil> - 1"
    using True by (simp add: roundHalfAwayFromZero_def Math_sign_def Math_abs_def f)
  show ?thesis
  proof (cases "isInteger (x + 1 / 2)")
    case i: True
    then have "x + 1 / 2 = of_int \<lfloor>x + 1 / 2\<rfloor>"
      by (auto simp: isInteger_def)
    then have "\<lceil>x + 1 / 2\<rceil> = \<lfloor>x + 1 / 2\<rfloor>"
      by (metis ceiling_of_int)
    with True i r show ?thesis
      by (simp add: Math_round_def)
  next
    case i: False
    then have "x + 1 / 2 \<noteq> of_int \<lfloor>x + 1 / 2\<rfloor>"
      by (auto simp: isInteger_def)
    then have "\<lceil>x + 1 / 2\<rceil> = \<lfloor>x + 1 / 2\<rfloor> + 1"
      by (simp add: ceiling_altdef)
    with True i r show ?thesis
      by (simp add: Math_round_def)
  qed
qed

lemma multiply_minus_five_months_by_half:
  "multiply \<lparr>months = - 5, days = 0, microseconds = 0\<rparr> (1 / 2)
     = \<lparr>months = - 2, days = 0, microseconds = 0\<rparr>"
  by code_simp

lemma parse_negated_iso_five_months:
  "Interval_of_string ''-P5M'' = \<lparr>months = - 5, days = 0, microseconds = 0\<rparr>"
  by code_simp

lemma half_away_minus_five_halves: "roundHalfAwayFromZero (- 5 * (1 / 2)) = - 3"
  by code_simp

text \<open>
  C8, as the code has it. \<open>addMicroseconds\<close> rounds its argument, \<open>addTime\<close> the
  microseconds of its seconds, and \<open>multiply\<close> each of the three scaled fields on its
  own, to the nearest whole number, and at a tie to the upper of the two. A number so
  rounded is the one that rounding half away from zero gives, except at a negative tie,
  where it is greater by one: -2.5 becomes -2, not -3.
\<close>

theorem rounding_ties_go_up:
  "nearestTiesUp us (microseconds (addMicroseconds us st) - microseconds st)
   \<and> nearestTiesUp (s * MICROSECONDS_PER_SECOND)
       (microseconds (addTime h m s st) - microseconds st
          - h * MICROSECONDS_PER_HOUR - m * MICROSECONDS_PER_MINUTE)
   \<and> nearestTiesUp (months (normalizeStorage st) * factor) (months (multiply st factor))
   \<and> nearestTiesUp (days (normalizeStorage st) * factor) (days (multiply st factor))
   \<and> nearestTiesUp (microseconds (normalizeStorage st) * factor)
       (microseconds (multiply st factor))
   \<and> (\<forall>x r. nearestTiesUp x r \<longrightarrow>
         r = (if x < 0 \<and> isInteger (x + 1 / 2) then roundHalfAwayFromZero x + 1
              else roundHalfAwayFromZero x))"
proof -
  have a: "microseconds (addMicroseconds us st) - microseconds st = Math_round us"
    by (simp add: addMicroseconds_def)
  have b: "microseconds (addTime h m s st) - microseconds st
          - h * MICROSECONDS_PER_HOUR - m * MICROSECONDS_PER_MINUTE
        = Math_round (s * MICROSECONDS_PER_SECOND)"
    by (simp add: addTime_def Let_def)
  have c: "months (multiply st factor) = Math_round (months (normalizeStorage st) * factor)"
    "days (multiply st factor) = Math_round (days (normalizeStorage st) * factor)"
    "microseconds (multiply st factor)
       = Math_round (microseconds (normalizeStorage st) * factor)"
    by (simp_all add: multiply_def Let_def Interval_of_storage_def)
  have d: "r = (if x < 0 \<and> isInteger (x + 1 / 2) then roundHalfAwayFromZero x + 1
              else roundHalfAwayFromZero x)" if "nearestTiesUp x r" for x r
    using nearestTiesUp_unique [OF that] Math_round_vs_half_away [of x] by simp
  show ?thesis
    unfolding a b c using d by (simp add: Math_round_nearestTiesUp)
qed

text \<open>
  The rule at the tie -5/2, reached by \<open>multiply\<close> from minus five months and the
  factor one half.
\<close>

theorem rounding_ties_go_up_witness:
  "nearestTiesUp (- 5 / 2) (months (multiply \<lparr>months = - 5, days = 0, microseconds = 0\<rparr> (1 / 2)))
   \<and> months (multiply \<lparr>months = - 5, days = 0, microseconds = 0\<rparr> (1 / 2))
       = roundHalfAwayFromZero (- 5 / 2) + 1"
proof -
  let ?st = "\<lparr>months = - 5, days = 0, microseconds = 0\<rparr>"
  from rounding_ties_go_up [of 0 ?st 0 0 0 "1 / 2"]
  have n: "nearestTiesUp (months (normalizeStorage ?st) * (1 / 2)) (months (multiply ?st (1 / 2)))"
    and u: "\<forall>x r. nearestTiesUp x r \<longrightarrow>
         r = (if x < 0 \<and> isInteger (x + 1 / 2) then roundHalfAwayFromZero x + 1
              else roundHalfAwayFromZero x)"
    by blast+
  from n have n': "nearestTiesUp (- 5 / 2) (months (multiply ?st (1 / 2)))"
    by (simp add: normalize_zero_microseconds)
  with u have "months (multiply ?st (1 / 2))
      = (if (- 5 / 2 :: rat) < 0 \<and> isInteger (- 5 / 2 + 1 / 2)
         then roundHalfAwayFromZero (- 5 / 2) + 1 else roundHalfAwayFromZero (- 5 / 2))"
    by blast
  moreover have "isInteger (- 5 / 2 + 1 / 2)"
    by (simp add: isInteger_def)
  ultimately have "months (multiply ?st (1 / 2)) = roundHalfAwayFromZero (- 5 / 2) + 1"
    by simp
  with n' show ?thesis
    by blast
qed

text \<open>
  C8, as stated, fails on the code: the interval of \<^verbatim>\<open>-P5M\<close> times one half has
  -2 months, where rounding -2.5 half away from zero gives -3.
\<close>

theorem rounding_is_not_half_away_from_zero:
  "months (multiply (Interval_of_string ''-P5M'') (1 / 2)) = - 2
   \<and> roundHalfAwayFromZero
        (months (normalizeStorage (Interval_of_string ''-P5M'')) * (1 / 2)) = - 3"
  using half_away_minus_five_halves
  by (simp add: parse_negated_iso_five_months multiply_minus_five_months_by_half
      normalize_zero_microseconds)

section \<open>The negated ISO-8601 form\<close>

lemma startsWith_minus_P:
  assumes "startsWith input ''-P''"
  obtains rest where "input = CHR ''-'' # CHR ''P'' # rest"
proof -
  from assms have "take 2 input = ''-P''"
    by (simp add: startsWith_def numeral_2_eq_2)
  then have "input = ''-P'' @ drop 2 input"
    by (metis append_take_drop_id)
  then show thesis
    using that by simp
qed

lemma tryParseNegativeISO_P: "tryParseNegativeISO (CHR ''P'' # rest) st = None"
  by (simp add: tryParseNegativeISO.simps startsWith_def)

lemma tryParseTimeFormat_P: "tryParseTimeFormat (CHR ''P'' # rest) st = None"
  by (simp add: tryParseTimeFormat_def matchTimeFormat_def startsWith_def isDigit_def Let_def)

lemma parse_P:
  "parse (CHR ''P'' # rest) st =
     (case tryParseISO8601 (CHR ''P'' # rest) st of
        Some st' \<Rightarrow> st'
      | None \<Rightarrow> parseVerboseFormat (CHR ''P'' # rest) st)"
  by (simp add: parse.simps [of "CHR ''P'' # rest"] tryParseNegativeISO_P tryParseTimeFormat_P
      split: option.split)

lemma tryParseISO8601_P1D:
  "tryParseISO8601 ''P1D'' emptyStorage = Some \<lparr>months = 0, days = 1, microseconds = 0\<rparr>"
  by code_simp

lemma starts_examples:
  "startsWith ''-P1D'' ''-P''" "\<not> startsWith ''1 day'' ''-P''" "startsWith ''-P 1 day'' ''-P''"
  "slice1 ''-P1D'' = ''P1D''" "slice1 ''-P 1 day'' = ''P 1 day''"
  by (simp_all add: startsWith_def slice1_def)

lemma matchISO8601_P_1_day: "matchISO8601 ''P 1 day'' = None"
  by code_simp

lemma tryParseNegativeISO_P_1_day:
  "tryParseNegativeISO ''-P 1 day'' emptyStorage
     = Some \<lparr>months = 0, days = - 1, microseconds = 0\<rparr>"
  by code_simp

lemma later_parsers_minus_P_1_day:
  "tryParseISO8601 ''-P 1 day'' emptyStorage = None"
  "tryParseTimeFormat ''-P 1 day'' emptyStorage = None"
  "parseVerboseFormat ''-P 1 day'' emptyStorage = \<lparr>months = 0, days = 1, microseconds = 0\<rparr>"
  by code_simp+

text \<open>
  C4, as the code has it. For an input that begins with \<^verbatim>\<open>-P\<close> the recognizer
  never declines: it drops the minus sign, hands the rest to the whole dispatch chain, which
  for a text beginning with \<^verbatim>\<open>P\<close> is the ISO-8601 parser and, where that one
  declines, the verbose parser, and negates each of the three fields of what comes back.
  It declines exactly the inputs that do not begin with \<^verbatim>\<open>-P\<close>.
\<close>

theorem negated_iso_dispatch:
  "(startsWith input ''-P'' \<longrightarrow>
      tryParseNegativeISO input st =
        Some (negateAllComponents
               (case tryParseISO8601 (slice1 input) st of
                  Some st' \<Rightarrow> st'
                | None \<Rightarrow> parseVerboseFormat (slice1 input) st))
      \<and> parse input st =
          negateAllComponents
            (case tryParseISO8601 (slice1 input) st of
               Some st' \<Rightarrow> st'
             | None \<Rightarrow> parseVerboseFormat (slice1 input) st))
   \<and> (\<not> startsWith input ''-P'' \<longrightarrow> tryParseNegativeISO input st = None)
   \<and> negateAllComponents st =
       \<lparr>months = - months st, days = - days st, microseconds = - microseconds st\<rparr>"
proof -
  have yes: "tryParseNegativeISO input st =
        Some (negateAllComponents
               (case tryParseISO8601 (slice1 input) st of
                  Some st' \<Rightarrow> st'
                | None \<Rightarrow> parseVerboseFormat (slice1 input) st))
      \<and> parse input st =
          negateAllComponents
            (case tryParseISO8601 (slice1 input) st of
               Some st' \<Rightarrow> st'
             | None \<Rightarrow> parseVerboseFormat (slice1 input) st)"
    if s: "startsWith input ''-P''"
  proof -
    from s obtain rest where i: "input = CHR ''-'' # CHR ''P'' # rest"
      by (rule startsWith_minus_P)
    then have sl: "slice1 input = CHR ''P'' # rest"
      by (simp add: slice1_def)
    have t: "tryParseNegativeISO input st = Some (negateAllComponents (parse (slice1 input) st))"
      using s by (simp add: tryParseNegativeISO.simps)
    then have p: "parse input st = negateAllComponents (parse (slice1 input) st)"
      by (simp add: parse.simps [of input])
    show ?thesis
      unfolding t p sl by (simp add: parse_P)
  qed
  have no: "tryParseNegativeISO input st = None" if "\<not> startsWith input ''-P''"
    using that by (simp add: tryParseNegativeISO.simps)
  show ?thesis
    using yes no by (simp add: negateAllComponents_def)
qed

text \<open>
  The dispatch on \<^verbatim>\<open>-P1D\<close>, which is taken, and on \<^verbatim>\<open>1 day\<close>, which
  is declined.
\<close>

theorem negated_iso_dispatch_witness:
  "startsWith ''-P1D'' ''-P''
   \<and> tryParseNegativeISO ''-P1D'' emptyStorage
       = Some \<lparr>months = 0, days = - 1, microseconds = 0\<rparr>
   \<and> parse ''-P1D'' emptyStorage = \<lparr>months = 0, days = - 1, microseconds = 0\<rparr>
   \<and> \<not> startsWith ''1 day'' ''-P''
   \<and> tryParseNegativeISO ''1 day'' emptyStorage = None"
proof -
  from negated_iso_dispatch [of "''-P1D''" emptyStorage] starts_examples(1)
  have "tryParseNegativeISO ''-P1D'' emptyStorage =
        Some (negateAllComponents
               (case tryParseISO8601 (slice1 ''-P1D'') emptyStorage of
                  Some st' \<Rightarrow> st'
                | None \<Rightarrow> parseVerboseFormat (slice1 ''-P1D'') emptyStorage))"
    and "parse ''-P1D'' emptyStorage =
          negateAllComponents
            (case tryParseISO8601 (slice1 ''-P1D'') emptyStorage of
               Some st' \<Rightarrow> st'
             | None \<Rightarrow> parseVerboseFormat (slice1 ''-P1D'') emptyStorage)"
    by blast+
  then have a: "tryParseNegativeISO ''-P1D'' emptyStorage
       = Some \<lparr>months = 0, days = - 1, microseconds = 0\<rparr>"
    and b: "parse ''-P1D'' emptyStorage = \<lparr>months = 0, days = - 1, microseconds = 0\<rparr>"
    by (simp_all add: starts_examples(4) tryParseISO8601_P1D negateAllComponents_def)
  from negated_iso_dispatch [of "''1 day''" emptyStorage] starts_examples(2)
  have c: "tryParseNegativeISO ''1 day'' emptyStorage = None"
    by blast
  from starts_examples(1,2) a b c show ?thesis
    by blast
qed

text \<open>
  C4, as stated, fails on the code: the rest of \<^verbatim>\<open>-P 1 day\<close> is not ISO-8601,
  yet the recognizer does not decline and leaves minus one day, where the later parsers
  of the chain would have left plus one day.
\<close>

theorem negated_iso_never_declines:
  "startsWith ''-P 1 day'' ''-P''
   \<and> matchISO8601 (slice1 ''-P 1 day'') = None
   \<and> tryParseNegativeISO ''-P 1 day'' emptyStorage
       = Some \<lparr>months = 0, days = - 1, microseconds = 0\<rparr>
   \<and> tryParseISO8601 ''-P 1 day'' emptyStorage = None
   \<and> tryParseTimeFormat ''-P 1 day'' emptyStorage = None
   \<and> parseVerboseFormat ''-P 1 day'' emptyStorage
       = \<lparr>months = 0, days = 1, microseconds = 0\<rparr>"
  by (simp add: starts_examples matchISO8601_P_1_day tryParseNegativeISO_P_1_day
      later_parsers_minus_P_1_day)

end
